theory Spec2Isabelle
  imports Main
begin

section \<open>The security-scan controller: bootstrap code of \<^verbatim>\<open>pkg/securityscan/controller.go\<close>\<close>

text \<open>
  The file under verification constructs the controller (\<^verbatim>\<open>NewController\<close>), registers
  its six Prometheus collectors (\<^verbatim>\<open>initializeMetrics\<close>), wires the five handlers and
  starts the controller factories (\<^verbatim>\<open>Start\<close>), and creates the custom resource
  definition (\<^verbatim>\<open>registerCRD\<close>).

  Almost every statement of these functions is a call into another package. Such a call
  is modelled as a function of an explicit world \<open>'w\<close> (everything outside the controller
  value: the API server, the process-wide Prometheus registry, ...), which returns the Go
  result pair and the new world. The functions themselves are collected in an environment
  record, so every theorem holds for every behaviour of the callees. The model also keeps
  a log of the calls a function body makes, in program order, each with the error it
  returned; the log is what "is called once", "is called before" and "is never called" are
  stated on. The \<^verbatim>\<open>context.Context\<close> argument is passed through to the callees
  unchanged and is left out, and the two \<^verbatim>\<open>logrus.Infof\<close> lines are not modelled.
\<close>

subsection \<open>Data\<close>

text \<open>A Go \<^verbatim>\<open>error\<close> value; \<^verbatim>\<open>err.Error()\<close> is its message. The nil error is \<open>None\<close>
  of \<open>error option\<close>.\<close>

datatype error = Error string

fun err_Error :: "error \<Rightarrow> string" where
  "err_Error (Error m) = m"

text \<open>\<^verbatim>\<open>fmt.Errorf(prefix + "%s", err.Error())\<close>.\<close>

definition fmt_Errorf :: "string \<Rightarrow> error \<Rightarrow> error" where
  "fmt_Errorf prefix err = Error (prefix @ err_Error err)"

text \<open>Values of other packages whose contents the controller never inspects
  (\<^verbatim>\<open>*rest.Config\<close>, the client sets, the factories, ...). A pointer that may be nil is
  an \<open>option\<close>.\<close>

datatype handle = Handle nat

type_synonym rest_Config = handle
type_synonym kubernetes_Clientset = handle
type_synonym kubeapiext_Clientset = handle
type_synonym corectl_Factory = handle
type_synonym batchctl_Factory = handle
type_synonym cisoperatorctl_Factory = handle
type_synonym apply_Apply = handle
type_synonym MonitoringV1Interface = handle
type_synonym ScanImageConfig = handle
type_synonym crd_CRD = handle

text \<open>\<^verbatim>\<open>version.Info\<close>: only \<^verbatim>\<open>GitVersion\<close> is read.\<close>

record version_Info =
  GitVersion :: string

text \<open>\<^verbatim>\<open>sync.Mutex\<close>; the zero value \<^verbatim>\<open>sync.Mutex{}\<close> is unlocked.\<close>

datatype sync_Mutex = Mutex bool

text \<open>\<^verbatim>\<open>prometheus.GaugeOpts\<close> and \<^verbatim>\<open>prometheus.CounterOpts\<close>, with the two fields that
  the source sets.\<close>

record Opts =
  Name :: string
  Help :: string

text \<open>A metric vector: its options and its variable label names, in order.\<close>

datatype GaugeVec = GaugeVec Opts "string list"
datatype CounterVec = CounterVec Opts "string list"

text \<open>The \<^verbatim>\<open>prometheus.Collector\<close> interface, as far as the controller implements it.\<close>

datatype Collector = GaugeCollector GaugeVec | CounterCollector CounterVec

fun collector_name :: "Collector \<Rightarrow> string" where
  "collector_name (GaugeCollector (GaugeVec opts ls)) = Name opts"
| "collector_name (CounterCollector (CounterVec opts ls)) = Name opts"

fun collector_labels :: "Collector \<Rightarrow> string list" where
  "collector_labels (GaugeCollector (GaugeVec opts ls)) = ls"
| "collector_labels (CounterCollector (CounterVec opts ls)) = ls"

fun is_gauge :: "Collector \<Rightarrow> bool" where
  "is_gauge (GaugeCollector g) = True"
| "is_gauge (CounterCollector c) = False"

fun is_counter :: "Collector \<Rightarrow> bool" where
  "is_counter (GaugeCollector g) = False"
| "is_counter (CounterCollector c) = True"

text \<open>\<^verbatim>\<open>type Controller struct\<close> (lines 30-53). The field \<^verbatim>\<open>apply\<close> is spelt \<open>apply'\<close>,
  since \<open>apply\<close> is a keyword here, and \<^verbatim>\<open>Name\<close> is spelt \<open>Name'\<close>, since the options
  record has a \<open>Name\<close> already.\<close>

record Controller =
  Namespace :: string
  Name' :: string
  ClusterProvider :: string
  KubernetesVersion :: string
  ImageConfig :: "ScanImageConfig option"
  kcs :: "kubernetes_Clientset option"
  xcs :: "kubeapiext_Clientset option"
  coreFactory :: "corectl_Factory option"
  batchFactory :: "batchctl_Factory option"
  cisFactory :: "cisoperatorctl_Factory option"
  apply' :: "apply_Apply option"
  monitoringClient :: "MonitoringV1Interface option"
  mu :: "sync_Mutex option"
  numTestsFailed :: "GaugeVec option"
  numScansComplete :: "CounterVec option"
  numTestsSkipped :: "GaugeVec option"
  numTestsTotal :: "GaugeVec option"
  numTestsNA :: "GaugeVec option"
  numTestsPassed :: "GaugeVec option"

text \<open>The zero value of the struct.\<close>

definition Controller_zero :: Controller where
  "Controller_zero = \<lparr>Namespace = [], Name' = [], ClusterProvider = [],
     KubernetesVersion = [], ImageConfig = None, kcs = None, xcs = None,
     coreFactory = None, batchFactory = None, cisFactory = None, apply' = None,
     monitoringClient = None, mu = None, numTestsFailed = None, numScansComplete = None,
     numTestsSkipped = None, numTestsTotal = None, numTestsNA = None,
     numTestsPassed = None\<rparr>"

subsection \<open>Calls into other packages, and the call log\<close>

datatype call =
    InClusterConfig
  | KubernetesNewForConfig
  | KubeapiextNewForConfig
  | DetectProvider string
  | ServerVersion string
  | ApplyNewForConfig
  | CisNewFactoryFromConfig
  | BatchNewFactoryFromConfig
  | CoreNewFactoryFromConfig
  | MonitoringNewForConfig
  | PrometheusRegister Collector
  | HandleJobs
  | HandlePods
  | HandleClusterScans
  | HandleScheduledClusterScans
  | HandleClusterScanMetrics
  | StartAll
  | ClusterScanCRD
  | BatchCreateCRDs "crd_CRD list"
  | BatchWait

text \<open>A log entry: the call, and the error it returned. The two detection calls are
  logged with the value they returned (the provider name, and the \<^verbatim>\<open>GitVersion\<close> of the
  version information), a registration with its collector, and a batch creation with the
  definitions submitted.\<close>

type_synonym event = "call \<times> error option"

text \<open>The world and the log so far.\<close>

type_synonym 'w state = "'w \<times> event list"

text \<open>The callees. The five handlers and \<^verbatim>\<open>scan.ClusterScanCRD\<close> belong to this
  repository, but their bodies are in other files; like the library functions they are
  parameters here. A handler receives the controller and returns an error, as its call
  in \<^verbatim>\<open>Start\<close> shows.\<close>

record 'w env =
  rest_InClusterConfig :: "'w \<Rightarrow> (rest_Config option \<times> error option) \<times> 'w"
  kubernetes_NewForConfig ::
    "rest_Config option \<Rightarrow> 'w \<Rightarrow> (kubernetes_Clientset option \<times> error option) \<times> 'w"
  kubeapiext_NewForConfig ::
    "rest_Config option \<Rightarrow> 'w \<Rightarrow> (kubeapiext_Clientset option \<times> error option) \<times> 'w"
  detector_DetectProvider ::
    "kubernetes_Clientset option \<Rightarrow> 'w \<Rightarrow> (string \<times> error option) \<times> 'w"
  Discovery_ServerVersion ::
    "kubernetes_Clientset option \<Rightarrow> 'w \<Rightarrow> (version_Info \<times> error option) \<times> 'w"
  apply_NewForConfig ::
    "rest_Config option \<Rightarrow> 'w \<Rightarrow> (apply_Apply option \<times> error option) \<times> 'w"
  cisoperatorctl_NewFactoryFromConfig ::
    "rest_Config option \<Rightarrow> 'w \<Rightarrow> (cisoperatorctl_Factory option \<times> error option) \<times> 'w"
  batchctl_NewFactoryFromConfig ::
    "rest_Config option \<Rightarrow> 'w \<Rightarrow> (batchctl_Factory option \<times> error option) \<times> 'w"
  corectl_NewFactoryFromConfig ::
    "rest_Config option \<Rightarrow> 'w \<Rightarrow> (corectl_Factory option \<times> error option) \<times> 'w"
  v1monitoringclient_NewForConfig ::
    "rest_Config option \<Rightarrow> 'w \<Rightarrow> (MonitoringV1Interface option \<times> error option) \<times> 'w"
  prometheus_Register :: "Collector \<Rightarrow> 'w \<Rightarrow> error option \<times> 'w"
  handleJobs :: "Controller \<Rightarrow> 'w \<Rightarrow> error option \<times> 'w"
  handlePods :: "Controller \<Rightarrow> 'w \<Rightarrow> error option \<times> 'w"
  handleClusterScans :: "Controller \<Rightarrow> 'w \<Rightarrow> error option \<times> 'w"
  handleScheduledClusterScans :: "Controller \<Rightarrow> 'w \<Rightarrow> error option \<times> 'w"
  handleClusterScanMetrics :: "Controller \<Rightarrow> 'w \<Rightarrow> error option \<times> 'w"
  start_All ::
    "int \<Rightarrow> cisoperatorctl_Factory option \<Rightarrow> corectl_Factory option \<Rightarrow>
     batchctl_Factory option \<Rightarrow> 'w \<Rightarrow> error option \<times> 'w"
  scan_ClusterScanCRD :: "'w \<Rightarrow> (crd_CRD option \<times> error option) \<times> 'w"
  crd_BatchCreateCRDs :: "kubeapiext_Clientset option \<Rightarrow> crd_CRD list \<Rightarrow> 'w \<Rightarrow> 'w"
  crd_BatchWait :: "'w \<Rightarrow> error option \<times> 'w"

text \<open>Making a call that returns \<^verbatim>\<open>(value, err)\<close>, and one that returns \<^verbatim>\<open>err\<close>: the
  callee runs on the world, and the call is appended to the log.\<close>

definition extcall ::
  "('a \<Rightarrow> call) \<Rightarrow> ('w \<Rightarrow> ('a \<times> error option) \<times> 'w) \<Rightarrow> 'w state \<Rightarrow>
   ('a \<times> error option) \<times> 'w state"
where
  "extcall c f s =
     (case f (fst s) of ((v, err), w') \<Rightarrow> ((v, err), (w', snd s @ [(c v, err)])))"

definition extcall0 ::
  "call \<Rightarrow> ('w \<Rightarrow> error option \<times> 'w) \<Rightarrow> 'w state \<Rightarrow> error option \<times> 'w state"
where
  "extcall0 c f s = (case f (fst s) of (err, w') \<Rightarrow> (err, (w', snd s @ [(c, err)])))"

subsection \<open>\<^verbatim>\<open>initializeMetrics\<close> (lines 178-276)\<close>

text \<open>\<^verbatim>\<open>prometheus.NewGaugeVec\<close> and \<^verbatim>\<open>prometheus.NewCounterVec\<close> build the vector from
  its options and label names. (They panic on an invalid metric or label name; the names
  below are valid.)\<close>

definition prometheus_NewGaugeVec :: "Opts \<Rightarrow> string list \<Rightarrow> GaugeVec" where
  "prometheus_NewGaugeVec opts labelNames = GaugeVec opts labelNames"

definition prometheus_NewCounterVec :: "Opts \<Rightarrow> string list \<Rightarrow> CounterVec" where
  "prometheus_NewCounterVec opts labelNames = CounterVec opts labelNames"

text \<open>\<^verbatim>\<open>prometheus.Register(c)\<close>, logged.\<close>

definition Register :: "'w env \<Rightarrow> Collector \<Rightarrow> 'w state \<Rightarrow> error option \<times> 'w state" where
  "Register env c s = extcall0 (PrometheusRegister c) (prometheus_Register env c) s"

text \<open>The six vectors, as the source constructs them.\<close>

definition vec_numTestsFailed :: GaugeVec where
  "vec_numTestsFailed = prometheus_NewGaugeVec
     \<lparr>Name = ''cis_scan_num_tests_fail'',
      Help = ''Number of test failed in the CIS scans, partioned by scan_name, scan_profile_name''\<rparr>
     [''scan_name'', ''scan_profile_name'']"

definition vec_numScansComplete :: CounterVec where
  "vec_numScansComplete = prometheus_NewCounterVec
     \<lparr>Name = ''cis_scan_num_scans_complete'',
      Help = ''Number of CIS clusterscans completed, partioned by scan_name, scan_profile_name''\<rparr>
     [''scan_name'', ''scan_profile_name'']"

definition vec_numTestsTotal :: GaugeVec where
  "vec_numTestsTotal = prometheus_NewGaugeVec
     \<lparr>Name = ''cis_scan_num_tests_total'',
      Help = ''Total Number of tests run in the CIS scans, partioned by scan_name, scan_profile_name''\<rparr>
     [''scan_name'', ''scan_profile_name'']"

definition vec_numTestsPassed :: GaugeVec where
  "vec_numTestsPassed = prometheus_NewGaugeVec
     \<lparr>Name = ''cis_scan_num_tests_pass'',
      Help = ''Number of tests passing in the CIS scans, partioned by scan_name, scan_profile_name''\<rparr>
     [''scan_name'', ''scan_profile_name'']"

definition vec_numTestsSkipped :: GaugeVec where
  "vec_numTestsSkipped = prometheus_NewGaugeVec
     \<lparr>Name = ''cis_scan_num_tests_skipped'',
      Help = ''Number of test skipped in the CIS scans, partioned by scan_name, scan_profile_name''\<rparr>
     [''scan_name'', ''scan_profile_name'']"

definition vec_numTestsNA :: GaugeVec where
  "vec_numTestsNA = prometheus_NewGaugeVec
     \<lparr>Name = ''cis_scan_num_tests_na'',
      Help = ''Number of tests not applicable in the CIS scans, partioned by scan_name, scan_profile_name''\<rparr>
     [''scan_name'', ''scan_profile_name'']"

text \<open>The function assigns each vector to its field and registers it, and returns at the
  first registration error. It works on the controller through a pointer, so the fields
  assigned so far stay assigned when it fails: the model returns the controller too.\<close>

definition initializeMetrics ::
  "'w env \<Rightarrow> Controller \<Rightarrow> 'w state \<Rightarrow> (Controller \<times> error option) \<times> 'w state"
where
  "initializeMetrics env ctl s0 =
    (let ctl1 = ctl\<lparr>numTestsFailed := Some vec_numTestsFailed\<rparr> in
     case Register env (GaugeCollector vec_numTestsFailed) s0 of
       (Some err, s1) \<Rightarrow> ((ctl1, Some err), s1)
     | (None, s1) \<Rightarrow>
    (let ctl2 = ctl1\<lparr>numScansComplete := Some vec_numScansComplete\<rparr> in
     case Register env (CounterCollector vec_numScansComplete) s1 of
       (Some err, s2) \<Rightarrow> ((ctl2, Some err), s2)
     | (None, s2) \<Rightarrow>
    (let ctl3 = ctl2\<lparr>numTestsTotal := Some vec_numTestsTotal\<rparr> in
     case Register env (GaugeCollector vec_numTestsTotal) s2 of
       (Some err, s3) \<Rightarrow> ((ctl3, Some err), s3)
     | (None, s3) \<Rightarrow>
    (let ctl4 = ctl3\<lparr>numTestsPassed := Some vec_numTestsPassed\<rparr> in
     case Register env (GaugeCollector vec_numTestsPassed) s3 of
       (Some err, s4) \<Rightarrow> ((ctl4, Some err), s4)
     | (None, s4) \<Rightarrow>
    (let ctl5 = ctl4\<lparr>numTestsSkipped := Some vec_numTestsSkipped\<rparr> in
     case Register env (GaugeCollector vec_numTestsSkipped) s4 of
       (Some err, s5) \<Rightarrow> ((ctl5, Some err), s5)
     | (None, s5) \<Rightarrow>
    (let ctl6 = ctl5\<lparr>numTestsNA := Some vec_numTestsNA\<rparr> in
     case Register env (GaugeCollector vec_numTestsNA) s5 of
       (Some err, s6) \<Rightarrow> ((ctl6, Some err), s6)
     | (None, s6) \<Rightarrow> ((ctl6, None), s6)))))))"

subsection \<open>\<^verbatim>\<open>detectClusterProvider\<close> and \<^verbatim>\<open>detectKubernetesVersion\<close> (lines 162-176)\<close>

definition detectClusterProvider ::
  "'w env \<Rightarrow> kubernetes_Clientset option \<Rightarrow> 'w state \<Rightarrow> (string \<times> error option) \<times> 'w state"
where
  "detectClusterProvider env k8sClient s =
     (case extcall DetectProvider (detector_DetectProvider env k8sClient) s of
        ((provider, Some err), s') \<Rightarrow> (([], Some err), s')
      | ((provider, None), s') \<Rightarrow> ((provider, None), s'))"

definition detectKubernetesVersion ::
  "'w env \<Rightarrow> kubernetes_Clientset option \<Rightarrow> 'w state \<Rightarrow> (string \<times> error option) \<times> 'w state"
where
  "detectKubernetesVersion env k8sClient s =
     (case extcall (\<lambda>v. ServerVersion (GitVersion v)) (Discovery_ServerVersion env k8sClient) s of
        ((v, Some err), s') \<Rightarrow> (([], Some err), s')
      | ((v, None), s') \<Rightarrow> ((GitVersion v, None), s'))"

subsection \<open>\<^verbatim>\<open>NewController\<close> (lines 55-124)\<close>

text \<open>Lines 62-124: the function from the point where \<^verbatim>\<open>cfg\<close> is settled. The result is
  the Go pair \<^verbatim>\<open>(ctl, err)\<close>: a pointer that may be nil and an error that may be nil.\<close>

definition NewController_cfg ::
  "'w env \<Rightarrow> rest_Config option \<Rightarrow> string \<Rightarrow> string \<Rightarrow> ScanImageConfig option \<Rightarrow>
   'w state \<Rightarrow> (Controller option \<times> error option) \<times> 'w state"
where
  "NewController_cfg env cfg namespace name imgConfig s0 =
    (let ctl = Controller_zero\<lparr>Namespace := namespace, Name' := name,
                 ImageConfig := imgConfig, mu := Some (Mutex False)\<rparr> in
     case extcall (\<lambda>v. KubernetesNewForConfig) (kubernetes_NewForConfig env cfg) s0 of
       ((v1, Some err), s1) \<Rightarrow> ((None, Some err), s1)
     | ((v1, None), s1) \<Rightarrow>
    (let ctl = ctl\<lparr>kcs := v1\<rparr> in
     case extcall (\<lambda>v. KubeapiextNewForConfig) (kubeapiext_NewForConfig env cfg) s1 of
       ((v2, Some err), s2) \<Rightarrow> ((None, Some err), s2)
     | ((v2, None), s2) \<Rightarrow>
    (let ctl = ctl\<lparr>xcs := v2\<rparr> in
     case extcall (\<lambda>v. KubernetesNewForConfig) (kubernetes_NewForConfig env cfg) s2 of
       ((clientset, Some err), s3) \<Rightarrow> ((None, Some err), s3)
     | ((clientset, None), s3) \<Rightarrow>
    (case detectClusterProvider env clientset s3 of
       ((v4, Some err), s4) \<Rightarrow> ((None, Some err), s4)
     | ((v4, None), s4) \<Rightarrow>
    (let ctl = ctl\<lparr>ClusterProvider := v4\<rparr> in
     case detectKubernetesVersion env clientset s4 of
       ((v5, Some err), s5) \<Rightarrow> ((None, Some err), s5)
     | ((v5, None), s5) \<Rightarrow>
    (let ctl = ctl\<lparr>KubernetesVersion := v5\<rparr> in
     case extcall (\<lambda>v. ApplyNewForConfig) (apply_NewForConfig env cfg) s5 of
       ((v6, Some err), s6) \<Rightarrow> ((None, Some err), s6)
     | ((v6, None), s6) \<Rightarrow>
    (let ctl = ctl\<lparr>apply' := v6\<rparr> in
     case extcall (\<lambda>v. CisNewFactoryFromConfig) (cisoperatorctl_NewFactoryFromConfig env cfg) s6 of
       ((v7, Some err), s7) \<Rightarrow>
         ((None, Some (fmt_Errorf ''Error building securityscan NewFactoryFromConfig: '' err)), s7)
     | ((v7, None), s7) \<Rightarrow>
    (let ctl = ctl\<lparr>cisFactory := v7\<rparr> in
     case extcall (\<lambda>v. BatchNewFactoryFromConfig) (batchctl_NewFactoryFromConfig env cfg) s7 of
       ((v8, Some err), s8) \<Rightarrow>
         ((None, Some (fmt_Errorf ''Error building batch NewFactoryFromConfig: '' err)), s8)
     | ((v8, None), s8) \<Rightarrow>
    (let ctl = ctl\<lparr>batchFactory := v8\<rparr> in
     case extcall (\<lambda>v. CoreNewFactoryFromConfig) (corectl_NewFactoryFromConfig env cfg) s8 of
       ((v9, Some err), s9) \<Rightarrow>
         ((None, Some (fmt_Errorf ''Error building core NewFactoryFromConfig: '' err)), s9)
     | ((v9, None), s9) \<Rightarrow>
    (let ctl = ctl\<lparr>coreFactory := v9\<rparr> in
     case extcall (\<lambda>v. MonitoringNewForConfig) (v1monitoringclient_NewForConfig env cfg) s9 of
       ((v10, Some err), s10) \<Rightarrow>
         ((None, Some (fmt_Errorf ''Error building v1 monitoring client from config: '' err)), s10)
     | ((v10, None), s10) \<Rightarrow>
    (let ctl = ctl\<lparr>monitoringClient := v10\<rparr> in
     case initializeMetrics env ctl s10 of
       ((ctl', Some err), s11) \<Rightarrow>
         ((None, Some (fmt_Errorf ''Error registering CIS Metrics: '' err)), s11)
     | ((ctl', None), s11) \<Rightarrow> ((Some ctl', None), s11))))))))))))"

text \<open>Lines 55-61: a nil \<^verbatim>\<open>cfg\<close> is replaced by the in-cluster configuration.\<close>

definition NewController ::
  "'w env \<Rightarrow> rest_Config option \<Rightarrow> string \<Rightarrow> string \<Rightarrow> ScanImageConfig option \<Rightarrow>
   'w state \<Rightarrow> (Controller option \<times> error option) \<times> 'w state"
where
  "NewController env cfg namespace name imgConfig s0 =
    (case cfg of
       None \<Rightarrow>
         (case extcall (\<lambda>v. InClusterConfig) (rest_InClusterConfig env) s0 of
            ((cfg', Some err), s1) \<Rightarrow> ((None, Some err), s1)
          | ((cfg', None), s1) \<Rightarrow> NewController_cfg env cfg' namespace name imgConfig s1)
     | Some c \<Rightarrow> NewController_cfg env cfg namespace name imgConfig s0)"

subsection \<open>\<^verbatim>\<open>Start\<close> (lines 126-144)\<close>


subsection \<open>\<^verbatim>\<open>registerCRD\<close> (lines 146-160)\<close>





subsection \<open>Reading the log\<close>

text \<open>The six collectors in the order in which \<^verbatim>\<open>initializeMetrics\<close> registers them.\<close>

definition metric_families :: "Collector list" where
  "metric_families =
     [GaugeCollector vec_numTestsFailed, CounterCollector vec_numScansComplete,
      GaugeCollector vec_numTestsTotal, GaugeCollector vec_numTestsPassed,
      GaugeCollector vec_numTestsSkipped, GaugeCollector vec_numTestsNA]"






subsection \<open>The Prometheus default registry\<close>

text \<open>\<^verbatim>\<open>prometheus.Register\<close> is a package-level function: it registers with
  \<^verbatim>\<open>prometheus.DefaultRegisterer\<close>, one registry for the whole process. This is the
  library's documented behaviour, with the registry as the world: a collector whose
  fully-qualified name is registered already is refused with the library's
  \<^verbatim>\<open>AlreadyRegisteredError\<close>, any other is added.\<close>

definition DefaultRegisterer_Register ::
  "Collector \<Rightarrow> Collector list \<Rightarrow> error option \<times> Collector list"
where
  "DefaultRegisterer_Register c registry =
     (if list_ex (\<lambda>c'. collector_name c' = collector_name c) registry
      then (Some (Error ''duplicate metrics collector registration attempted''), registry)
      else (None, registry @ [c]))"

subsection \<open>The metrics aggregator's \<^verbatim>\<open>Record\<close>\<close>

text \<open>The key of a metric series: the values of the labels \<^verbatim>\<open>scan_name\<close> and
  \<^verbatim>\<open>scan_profile_name\<close>.\<close>

type_synonym seriesKey = "string \<times> string"

record ResultSummary =
  summary_passed :: nat
  summary_failed :: nat
  summary_skipped :: nat
  summary_notApplicable :: nat
  summary_total :: nat
  summary_failedChecks :: "string list"

record MetricSeries =
  gauge_failed :: nat
  gauge_total :: nat
  gauge_passed :: nat
  gauge_skipped :: nat
  gauge_notApplicable :: nat
  counter_completed :: nat

text \<open>The value of the completed-count counter of a key; a series that was never
  observed counts as zero.\<close>

definition completed :: "(seriesKey \<rightharpoonup> MetricSeries) \<Rightarrow> seriesKey \<Rightarrow> nat" where
  "completed store key = (case store key of None \<Rightarrow> 0 | Some m \<Rightarrow> counter_completed m)"

text \<open>Modelled from the spec: the operation \<^verbatim>\<open>Record(seriesKey, summary)\<close> of the metrics
  aggregator (section 4.5), which in the repository is done by the cluster-scan metrics
  handler, a file that is not among the sources at hand. It sets the five gauges of the
  key to the values of the summary and adds one to the completed-count counter of the
  key.\<close>

definition Record ::
  "seriesKey \<Rightarrow> ResultSummary \<Rightarrow> (seriesKey \<rightharpoonup> MetricSeries) \<Rightarrow> (seriesKey \<rightharpoonup> MetricSeries)"
where
  "Record key summary store =
     store(key \<mapsto>
       \<lparr>gauge_failed = summary_failed summary,
        gauge_total = summary_total summary,
        gauge_passed = summary_passed summary,
        gauge_skipped = summary_skipped summary,
        gauge_notApplicable = summary_notApplicable summary,
        counter_completed = completed store key + 1\<rparr>)"

text \<open>Recording the summaries of a sequence of completed scans, oldest first.\<close>

fun Record_all ::
  "(seriesKey \<times> ResultSummary) list \<Rightarrow> (seriesKey \<rightharpoonup> MetricSeries) \<Rightarrow>
   (seriesKey \<rightharpoonup> MetricSeries)"
where
  "Record_all [] store = store"
| "Record_all ((key, summary) # rest) store = Record_all rest (Record key summary store)"

subsection \<open>Concrete environments\<close>

text \<open>A cluster in which every call succeeds; the world is the default registry.\<close>

definition healthy :: "Collector list env" where
  "healthy =
     \<lparr>rest_InClusterConfig = (\<lambda>w. ((Some (Handle 0), None), w)),
      kubernetes_NewForConfig = (\<lambda>cfg w. ((Some (Handle 1), None), w)),
      kubeapiext_NewForConfig = (\<lambda>cfg w. ((Some (Handle 2), None), w)),
      detector_DetectProvider = (\<lambda>k w. ((''rke'', None), w)),
      Discovery_ServerVersion = (\<lambda>k w. ((\<lparr>GitVersion = ''v1.20.4''\<rparr>, None), w)),
      apply_NewForConfig = (\<lambda>cfg w. ((Some (Handle 3), None), w)),
      cisoperatorctl_NewFactoryFromConfig = (\<lambda>cfg w. ((Some (Handle 4), None), w)),
      batchctl_NewFactoryFromConfig = (\<lambda>cfg w. ((Some (Handle 5), None), w)),
      corectl_NewFactoryFromConfig = (\<lambda>cfg w. ((Some (Handle 6), None), w)),
      v1monitoringclient_NewForConfig = (\<lambda>cfg w. ((Some (Handle 7), None), w)),
      prometheus_Register = DefaultRegisterer_Register,
      handleJobs = (\<lambda>c w. (None, w)),
      handlePods = (\<lambda>c w. (None, w)),
      handleClusterScans = (\<lambda>c w. (None, w)),
      handleScheduledClusterScans = (\<lambda>c w. (None, w)),
      handleClusterScanMetrics = (\<lambda>c w. (None, w)),
      start_All = (\<lambda>threads cis core batch w. (None, w)),
      scan_ClusterScanCRD = (\<lambda>w. ((Some (Handle 8), None), w)),
      crd_BatchCreateCRDs = (\<lambda>x ds w. w),
      crd_BatchWait = (\<lambda>w. (None, w))\<rparr>"

text \<open>The same outside a cluster: there is no in-cluster configuration.\<close>

definition outside_cluster :: "Collector list env" where
  "outside_cluster =
     healthy\<lparr>rest_InClusterConfig :=
       (\<lambda>w. ((None, Some (Error ''unable to load in-cluster configuration'')), w))\<rparr>"

text \<open>The same with a monitoring client that cannot be built.\<close>

definition no_monitoring :: "Collector list env" where
  "no_monitoring =
     healthy\<lparr>v1monitoringclient_NewForConfig :=
       (\<lambda>cfg w. ((None, Some (Error ''no monitoring API'')), w))\<rparr>"


text \<open>The controller that \<^verbatim>\<open>NewController\<close> builds in the healthy cluster.\<close>

definition healthy_controller :: Controller where
  "healthy_controller =
     \<lparr>Namespace = ''cis-operator-system'', Name' = ''cis-operator'',
      ClusterProvider = ''rke'', KubernetesVersion = ''v1.20.4'', ImageConfig = None,
      kcs = Some (Handle 1), xcs = Some (Handle 2), coreFactory = Some (Handle 6),
      batchFactory = Some (Handle 5), cisFactory = Some (Handle 4),
      apply' = Some (Handle 3), monitoringClient = Some (Handle 7),
      mu = Some (Mutex False), numTestsFailed = Some vec_numTestsFailed,
      numScansComplete = Some vec_numScansComplete,
      numTestsSkipped = Some vec_numTestsSkipped, numTestsTotal = Some vec_numTestsTotal,
      numTestsNA = Some vec_numTestsNA, numTestsPassed = Some vec_numTestsPassed\<rparr>"

text \<open>The log of a successful \<^verbatim>\<open>NewController\<close> in the healthy cluster, given a
  configuration.\<close>

definition healthy_log :: "event list" where
  "healthy_log =
     [(KubernetesNewForConfig, None), (KubeapiextNewForConfig, None),
      (KubernetesNewForConfig, None), (DetectProvider ''rke'', None),
      (ServerVersion ''v1.20.4'', None), (ApplyNewForConfig, None),
      (CisNewFactoryFromConfig, None), (BatchNewFactoryFromConfig, None),
      (CoreNewFactoryFromConfig, None), (MonitoringNewForConfig, None)]
     @ map (\<lambda>c. (PrometheusRegister c, None)) metric_families"

section \<open>Properties\<close>

subsection \<open>What a call adds to the log\<close>

lemma extcall_log:
  "extcall c f (w, tr) = ((v, e), (w', tr')) \<Longrightarrow> tr' = tr @ [(c v, e)] \<and> f w = ((v, e), w')"
  by (auto simp: extcall_def split: prod.splits)

lemma extcall0_log:
  "extcall0 c f (w, tr) = (e, (w', tr')) \<Longrightarrow> tr' = tr @ [(c, e)] \<and> f w = (e, w')"
  by (auto simp: extcall0_def split: prod.splits)

lemma Register_log:
  "Register env c (w, tr) = (e, (w', tr')) \<Longrightarrow>
     tr' = tr @ [(PrometheusRegister c, e)] \<and> prometheus_Register env c w = (e, w')"
  by (auto simp: Register_def dest: extcall0_log)


lemma initializeMetrics_shape:
  assumes "initializeMetrics env ctl (w, tr) = ((ctl', e), (w', tr'))"
  shows "\<exists>evs. tr' = tr @ evs \<and> evs \<noteq> [] \<and> (\<forall>ev\<in>set (butlast evs). snd ev = None) \<and>
           snd (last evs) = e"
  using assms
  by (auto simp: initializeMetrics_def Let_def
           split: prod.splits option.splits dest!: Register_log)

lemma initializeMetrics_ok:
  assumes "initializeMetrics env ctl (w, tr) = ((ctl', None), (w', tr'))"
  shows "tr' = tr @ map (\<lambda>c. (PrometheusRegister c, None)) metric_families \<and>
         ctl' = ctl\<lparr>numTestsFailed := Some vec_numTestsFailed,
                    numScansComplete := Some vec_numScansComplete,
                    numTestsTotal := Some vec_numTestsTotal,
                    numTestsPassed := Some vec_numTestsPassed,
                    numTestsSkipped := Some vec_numTestsSkipped,
                    numTestsNA := Some vec_numTestsNA\<rparr>"
  using assms
  by (auto simp: initializeMetrics_def metric_families_def Let_def
           split: prod.splits option.splits dest!: Register_log)

lemmas NewController_defs =
  NewController_def NewController_cfg_def detectClusterProvider_def
  detectKubernetesVersion_def Let_def



lemmas vec_defs =
  vec_numTestsFailed_def vec_numScansComplete_def vec_numTestsTotal_def
  vec_numTestsPassed_def vec_numTestsSkipped_def vec_numTestsNA_def
  prometheus_NewGaugeVec_def prometheus_NewCounterVec_def

text \<open>The six families by kind, name and labels.\<close>

lemma metric_families_facts:
  "length metric_families = 6"
  "length (filter is_gauge metric_families) = 5"
  "length (filter is_counter metric_families) = 1"
  "map collector_name metric_families =
     [''cis_scan_num_tests_fail'', ''cis_scan_num_scans_complete'',
      ''cis_scan_num_tests_total'', ''cis_scan_num_tests_pass'',
      ''cis_scan_num_tests_skipped'', ''cis_scan_num_tests_na'']"
  "map collector_labels metric_families = replicate 6 [''scan_name'', ''scan_profile_name'']"
  by (simp_all add: metric_families_def vec_defs numeral_eq_Suc)



text \<open>The completed-count counter under \<^verbatim>\<open>Record\<close>.\<close>

lemma completed_Record:
  "completed (Record k s store) key =
     (if k = key then completed store key + 1 else completed store key)"
  by (simp add: Record_def completed_def)

lemma completed_Record_all:
  "completed (Record_all rs store) key =
     completed store key + length (filter (\<lambda>r. fst r = key) rs)"
  by (induction rs arbitrary: store) (auto simp: completed_Record)

lemma Record_all_append:
  "Record_all (xs @ ys) store = Record_all ys (Record_all xs store)"
  by (induction xs arbitrary: store) auto

subsection \<open>Runs in the concrete environments\<close>

lemmas run_defs =
  NewController_defs extcall_def extcall0_def initializeMetrics_def Register_def
  DefaultRegisterer_Register_def metric_families_def Controller_zero_def fmt_Errorf_def

lemma NewController_healthy:
  "NewController healthy (Some (Handle 0)) ''cis-operator-system'' ''cis-operator'' None
     ([], []) = ((Some healthy_controller, None), (metric_families, healthy_log))"
  by (simp add: run_defs vec_defs healthy_def healthy_log_def healthy_controller_def)

lemma NewController_no_monitoring:
  "NewController no_monitoring (Some (Handle 0)) ''cis-operator-system'' ''cis-operator'' None
     ([], []) =
   ((None, Some (Error ''Error building v1 monitoring client from config: no monitoring API'')),
    ([], take 9 healthy_log @ [(MonitoringNewForConfig, Some (Error ''no monitoring API''))]))"
  by (simp add: run_defs no_monitoring_def healthy_def healthy_log_def)

lemma NewController_outside_cluster:
  "NewController outside_cluster None ''cis-operator-system'' ''cis-operator'' None ([], []) =
     ((None, Some (Error ''unable to load in-cluster configuration'')),
      ([], [(InClusterConfig, Some (Error ''unable to load in-cluster configuration''))]))"
  by (simp add: NewController_def extcall_def outside_cluster_def healthy_def)




lemma initializeMetrics_healthy:
  "initializeMetrics healthy Controller_zero ([], []) =
     ((Controller_zero\<lparr>numTestsFailed := Some vec_numTestsFailed,
                    numScansComplete := Some vec_numScansComplete,
                    numTestsTotal := Some vec_numTestsTotal,
                    numTestsPassed := Some vec_numTestsPassed,
                    numTestsSkipped := Some vec_numTestsSkipped,
                    numTestsNA := Some vec_numTestsNA\<rparr>, None),
      (metric_families, map (\<lambda>c. (PrometheusRegister c, None)) metric_families))"
  by (simp add: initializeMetrics_def Register_def extcall0_def healthy_def
        DefaultRegisterer_Register_def metric_families_def vec_defs)


subsection \<open>Claims\<close>






text \<open>C8. \<^verbatim>\<open>NewController\<close> makes its calls one after the other and stops at the first
  that returns an error: every call before the last has succeeded. When the last call of
  the run failed, whichever step it is, the result is a nil controller with a non-nil
  error; when it succeeded, all steps have, and the result is a controller with a nil
  error. So a controller is never returned together with an error, nor after a failed
  step.\<close>

theorem NewController_all_or_nothing:
  assumes "NewController env cfg namespace name imgConfig (w, tr) = ((r, e), (w', tr'))"
  shows "\<exists>evs. tr' = tr @ evs \<and> evs \<noteq> [] \<and> (\<forall>ev\<in>set (butlast evs). snd ev = None) \<and>
           (snd (last evs) = None \<longrightarrow> r \<noteq> None \<and> e = None) \<and>
           (snd (last evs) \<noteq> None \<longrightarrow> r = None \<and> e \<noteq> None)"
  using assms
  by (auto simp: NewController_defs butlast_append
           split: prod.splits option.splits dest!: extcall_log initializeMetrics_shape)

text \<open>Without a monitoring API the tenth call fails, and no controller is returned.\<close>

theorem NewController_all_or_nothing_witness:
  "NewController no_monitoring (Some (Handle 0)) ''cis-operator-system'' ''cis-operator'' None
     ([], []) =
   ((None, Some (Error ''Error building v1 monitoring client from config: no monitoring API'')),
    ([], take 9 healthy_log @ [(MonitoringNewForConfig, Some (Error ''no monitoring API''))]))
   \<and> snd (last (take 9 healthy_log @ [(MonitoringNewForConfig, Some (Error ''no monitoring API''))]))
       \<noteq> None"
  using NewController_all_or_nothing [OF NewController_no_monitoring] NewController_no_monitoring
  by simp

text \<open>C9. Called with a nil configuration, \<^verbatim>\<open>NewController\<close> asks for the in-cluster
  configuration. When that fails, it returns nil and the very error of the lookup, and the
  lookup is the only call it has made: no client was constructed and no metric
  registered. When the lookup succeeds, it goes on as if it had been called with the
  configuration found.\<close>

theorem NewController_nil_config:
  "(rest_InClusterConfig env w = ((c, Some err), w') \<longrightarrow>
      NewController env None namespace name imgConfig (w, tr) =
        ((None, Some err), (w', tr @ [(InClusterConfig, Some err)]))) \<and>
   (rest_InClusterConfig env w = ((Some c', None), w') \<longrightarrow>
      NewController env None namespace name imgConfig (w, tr) =
        NewController env (Some c') namespace name imgConfig (w', tr @ [(InClusterConfig, None)]))"
  by (simp add: NewController_def extcall_def)

theorem NewController_nil_config_witness:
  "rest_InClusterConfig outside_cluster [] =
     ((None, Some (Error ''unable to load in-cluster configuration'')), [])
   \<and> NewController outside_cluster None ''cis-operator-system'' ''cis-operator'' None ([], []) =
     ((None, Some (Error ''unable to load in-cluster configuration'')),
      ([], [(InClusterConfig, Some (Error ''unable to load in-cluster configuration''))]))
   \<and> rest_InClusterConfig healthy [] = ((Some (Handle 0), None), [])
   \<and> NewController healthy None ''cis-operator-system'' ''cis-operator'' None ([], []) =
     NewController healthy (Some (Handle 0)) ''cis-operator-system'' ''cis-operator'' None
       ([], [(InClusterConfig, None)])"
  using NewController_nil_config [of outside_cluster "[]" None
          "Error ''unable to load in-cluster configuration''" "[]"
          "''cis-operator-system''" "''cis-operator''" None "[]" "Handle 0"]
        NewController_nil_config [of healthy "[]" None
          "Error ''unable to load in-cluster configuration''" "[]"
          "''cis-operator-system''" "''cis-operator''" None "[]" "Handle 0"]
  by (simp add: outside_cluster_def healthy_def)




text \<open>C10. A controller that \<^verbatim>\<open>NewController\<close> returns comes with a nil error, its mutex
  is set (and unlocked), each of its six collector fields holds the vector built for it,
  and the last six calls of the run are the registrations of these six collectors, every
  one of them successful.\<close>

theorem NewController_collectors_registered:
  assumes "NewController env cfg namespace name imgConfig (w, tr) = ((Some c, e), (w', tr'))"
  shows "e = None \<and> mu c = Some (Mutex False) \<and>
         numTestsFailed c = Some vec_numTestsFailed \<and>
         numScansComplete c = Some vec_numScansComplete \<and>
         numTestsSkipped c = Some vec_numTestsSkipped \<and>
         numTestsTotal c = Some vec_numTestsTotal \<and>
         numTestsNA c = Some vec_numTestsNA \<and>
         numTestsPassed c = Some vec_numTestsPassed \<and>
         (\<exists>evs. tr' = tr @ evs @ map (\<lambda>col. (PrometheusRegister col, None)) metric_families)"
  using assms
  by (auto simp: NewController_defs Controller_zero_def
           split: prod.splits option.splits dest!: extcall_log initializeMetrics_ok)

theorem NewController_collectors_registered_witness:
  "NewController healthy (Some (Handle 0)) ''cis-operator-system'' ''cis-operator'' None
     ([], []) = ((Some healthy_controller, None), (metric_families, healthy_log))
   \<and> mu healthy_controller = Some (Mutex False)
   \<and> numTestsFailed healthy_controller = Some vec_numTestsFailed
   \<and> numScansComplete healthy_controller = Some vec_numScansComplete
   \<and> healthy_log = take 10 healthy_log @
        map (\<lambda>col. (PrometheusRegister col, None)) metric_families"
  using NewController_collectors_registered [OF NewController_healthy] NewController_healthy
  by (simp add: healthy_controller_def healthy_log_def)

text \<open>C1. A successful \<^verbatim>\<open>initializeMetrics\<close> has registered exactly six metric
  families, which are the contents of the six collector fields of the controller: five
  gauge vectors (tests failed, total, passed, skipped, not applicable) and one counter
  vector (scans completed). Every one of the six has exactly the two labels
  \<^verbatim>\<open>scan_name\<close> and \<^verbatim>\<open>scan_profile_name\<close>, in this order.\<close>

theorem initializeMetrics_six_families:
  assumes "initializeMetrics env ctl (w, tr) = ((ctl', None), (w', tr'))"
  shows "tr' = tr @ map (\<lambda>c. (PrometheusRegister c, None)) metric_families \<and>
         [map_option GaugeCollector (numTestsFailed ctl'),
          map_option CounterCollector (numScansComplete ctl'),
          map_option GaugeCollector (numTestsTotal ctl'),
          map_option GaugeCollector (numTestsPassed ctl'),
          map_option GaugeCollector (numTestsSkipped ctl'),
          map_option GaugeCollector (numTestsNA ctl')] = map Some metric_families \<and>
         length metric_families = 6 \<and>
         length (filter is_gauge metric_families) = 5 \<and>
         length (filter is_counter metric_families) = 1 \<and>
         map collector_name metric_families =
           [''cis_scan_num_tests_fail'', ''cis_scan_num_scans_complete'',
            ''cis_scan_num_tests_total'', ''cis_scan_num_tests_pass'',
            ''cis_scan_num_tests_skipped'', ''cis_scan_num_tests_na''] \<and>
         map collector_labels metric_families =
           replicate 6 [''scan_name'', ''scan_profile_name'']"
proof -
  from initializeMetrics_ok [OF assms]
  have "tr' = tr @ map (\<lambda>c. (PrometheusRegister c, None)) metric_families"
    and "[map_option GaugeCollector (numTestsFailed ctl'),
          map_option CounterCollector (numScansComplete ctl'),
          map_option GaugeCollector (numTestsTotal ctl'),
          map_option GaugeCollector (numTestsPassed ctl'),
          map_option GaugeCollector (numTestsSkipped ctl'),
          map_option GaugeCollector (numTestsNA ctl')] = map Some metric_families"
    by (simp_all add: metric_families_def)
  with metric_families_facts show ?thesis by simp
qed

theorem initializeMetrics_six_families_witness:
  "initializeMetrics healthy Controller_zero ([], []) =
     ((Controller_zero\<lparr>numTestsFailed := Some vec_numTestsFailed,
                    numScansComplete := Some vec_numScansComplete,
                    numTestsTotal := Some vec_numTestsTotal,
                    numTestsPassed := Some vec_numTestsPassed,
                    numTestsSkipped := Some vec_numTestsSkipped,
                    numTestsNA := Some vec_numTestsNA\<rparr>, None),
      (metric_families, map (\<lambda>c. (PrometheusRegister c, None)) metric_families))
   \<and> length (filter is_gauge metric_families) = 5
   \<and> length (filter is_counter metric_families) = 1"
  using initializeMetrics_six_families [OF initializeMetrics_healthy] initializeMetrics_healthy
  by simp

text \<open>C5. Recording completed scans, for any keys and in any order: the completed-count
  counter of a key grows by one for each recording made for that key, so it never
  decreases; and after a recording for a key its five gauges hold the values of the summary
  recorded last, whatever they held before.\<close>

theorem Record_gauges_latest_counter_counts:
  "completed (Record_all rs store) key =
     completed store key + length (filter (\<lambda>r. fst r = key) rs) \<and>
   Record_all (rs @ [(key, summary)]) store key =
     Some \<lparr>gauge_failed = summary_failed summary,
           gauge_total = summary_total summary,
           gauge_passed = summary_passed summary,
           gauge_skipped = summary_skipped summary,
           gauge_notApplicable = summary_notApplicable summary,
           counter_completed =
             completed store key + length (filter (\<lambda>r. fst r = key) rs) + 1\<rparr>"
  by (simp add: completed_Record_all Record_all_append Record_def)

text \<open>The scenario of the specification: a first scan with 8 passed, 2 failed, none
  skipped, 1 not applicable, 11 in total.\<close>

theorem Record_gauges_latest_counter_counts_witness:
  "Record_all [((''manual'', ''cis-1.6-profile''),
        \<lparr>summary_passed = 8, summary_failed = 2, summary_skipped = 0,
         summary_notApplicable = 1, summary_total = 11, summary_failedChecks = []\<rparr>)]
      Map.empty (''manual'', ''cis-1.6-profile'') =
     Some \<lparr>gauge_failed = 2, gauge_total = 11, gauge_passed = 8, gauge_skipped = 0,
           gauge_notApplicable = 1, counter_completed = 1\<rparr>"
  using Record_gauges_latest_counter_counts [of "[]" Map.empty "(''manual'', ''cis-1.6-profile'')"
    "\<lparr>summary_passed = 8, summary_failed = 2, summary_skipped = 0,
      summary_notApplicable = 1, summary_total = 11, summary_failedChecks = []\<rparr>"]
  by (simp add: completed_def)




end
